theory Spec2Isabelle
  imports Main
begin

section \<open>Frames, JSON values and the platform\<close>

text \<open>
  A frame is one part of a multipart ZMQ message: a byte sequence. The source compares a
  frame with the delimiter through \<open>part.toString() === DELIMITER\<close>; the delimiter is
  ASCII, so the comparison holds exactly when the bytes of the frame are those of the
  delimiter, and a frame is modelled by its bytes.
\<close>

type_synonym frame = string

definition DELIMITER :: frame where
  "DELIMITER = ''<IDS|MSG>''"

text \<open>
  The values held by \<open>header\<close>, \<open>parentHeader\<close>, \<open>metadata\<close> and \<open>content\<close>.
  A property of an object may hold \<open>undefined\<close> (\<open>None\<close>), as \<open>username\<close> does in
  a response to a message whose header has none; a field of a message never does
  (the constructor, \<open>_decode\<close> and \<open>respond\<close> only store values that are not
  \<open>undefined\<close>). Numbers are restricted to integers.
\<close>

datatype json =
    JNull
  | JBool bool
  | JNum int
  | JStr string
  | JArr "json list"
  | JObj "(string \<times> json option) list"

datatype error = TypeError | SyntaxError

text \<open>
  What the source takes from the JavaScript platform, as parameters:
  \<^item> \<open>JSON.parse\<close>, which throws a SyntaxError (\<open>None\<close>) on text that is not JSON;
  \<^item> \<open>JSON.stringify\<close>, which returns a string on the values of type \<open>json\<close>;
  \<^item> \<open>crypto.createHmac(scheme, key)\<close> followed by one \<open>update\<close> per chunk and
    \<open>digest("hex")\<close>: the hex digest as a function of the scheme, the key and the
    chunks in the order of the updates. The scheme is taken to be one that the platform
    supports (\<open>createHmac\<close> throws on any other).
\<close>

record platform =
  JSON_parse :: "string \<Rightarrow> json option"
  JSON_stringify :: "json \<Rightarrow> string"
  createHmac :: "string \<Rightarrow> string \<Rightarrow> frame list \<Rightarrow> string"

section \<open>Message\<close>

record message =
  idents :: "frame list"
  header :: json
  parentHeader :: json
  metadata :: json
  content :: json
  blobs :: "frame list"
  signatureOK :: "bool option"

text \<open>\<open>new Message()\<close>: no properties given, so every field takes its default.\<close>

definition new_Message :: message where
  "new_Message =
     \<lparr>idents = [], header = JObj [], parentHeader = JObj [], metadata = JObj [],
      content = JObj [], blobs = [], signatureOK = None\<rparr>"

text \<open>\<open>x || d\<close> on an optional string: \<open>undefined\<close> and the empty string are falsy.\<close>

definition js_or :: "string option \<Rightarrow> string \<Rightarrow> string" where
  "js_or x d = (case x of None \<Rightarrow> d | Some s \<Rightarrow> if s = [] then d else s)"

text \<open>\<open>messageFrames[k]\<close>: \<open>undefined\<close> (\<open>None\<close>) out of range.\<close>

definition frame_at :: "frame list \<Rightarrow> nat \<Rightarrow> frame option" where
  "frame_at fs k = (if k < length fs then Some (fs ! k) else None)"

subsection \<open>_decode\<close>

text \<open>
  What a call of \<open>_decode\<close> ends in: it runs to its last statement, it returns early
  after \<open>console.error\<close> with one of three diagnostics, or it throws.
\<close>

datatype diagnostic =
    NotEnoughFrames
  | MissingDelimiter
  | IncorrectSignature string string

datatype outcome = Completed | Aborted diagnostic | Threw error

text \<open>The calls into the platform that a run of \<open>_decode\<close> makes, in order.\<close>

datatype call = JSONParse frame | CreateHmac string string | Digest "frame list"

text \<open>
  The loop of lines 166-172: from index \<open>i\<close>, push frames onto \<open>idents\<close> until a
  frame equals the delimiter (\<open>break\<close>) or the frames end. It returns the final
  \<open>i\<close> and the identities.
\<close>

function scan_idents :: "frame list \<Rightarrow> nat \<Rightarrow> frame list \<Rightarrow> nat \<times> frame list" where
  "scan_idents fs i ids =
     (if i < length fs
      then (if fs ! i = DELIMITER then (i, ids)
            else scan_idents fs (Suc i) (ids @ [fs ! i]))
      else (i, ids))"
  by pat_completeness auto
termination
  by (relation "measure (\<lambda>(fs, i, ids). length fs - i)") auto

declare scan_idents.simps [simp del]

text \<open>
  The block \<open>if (key) { ... }\<close> of lines 186-206. \<open>hmac.update(undefined)\<close> throws a
  TypeError, as does \<open>undefined.toString()\<close>. \<open>Completed\<close> stands for falling
  through to line 208.
\<close>

definition check_signature ::
  "platform \<Rightarrow> message \<Rightarrow> frame list \<Rightarrow> nat \<Rightarrow> string \<Rightarrow> string
     \<Rightarrow> message \<times> call list \<times> outcome" where
  "check_signature pf this fs i scheme key =
     (case frame_at fs (i + 1) of
        None \<Rightarrow> (this, [], Threw TypeError)
      | Some obtainedSignature \<Rightarrow>
          (case frame_at fs (i + 2) of
             None \<Rightarrow> (this, [CreateHmac scheme key], Threw TypeError)
           | Some f2 \<Rightarrow>
          (case frame_at fs (i + 3) of
             None \<Rightarrow> (this, [CreateHmac scheme key], Threw TypeError)
           | Some f3 \<Rightarrow>
          (case frame_at fs (i + 4) of
             None \<Rightarrow> (this, [CreateHmac scheme key], Threw TypeError)
           | Some f4 \<Rightarrow>
          (case frame_at fs (i + 5) of
             None \<Rightarrow> (this, [CreateHmac scheme key], Threw TypeError)
           | Some f5 \<Rightarrow>
               (let expectedSignature = createHmac pf scheme key [f2, f3, f4, f5];
                    this1 = this\<lparr>signatureOK := Some (expectedSignature = obtainedSignature)\<rparr>;
                    cs = [CreateHmac scheme key, Digest [f2, f3, f4, f5]]
                in if expectedSignature = obtainedSignature
                   then (this1, cs, Completed)
                   else (this1, cs,
                         Aborted (IncorrectSignature obtainedSignature expectedSignature))))))))"

text \<open>
  \<open>toJSON(messageFrames[k])\<close>, lines 214-216: \<open>value.toString()\<close> throws a TypeError
  on \<open>undefined\<close>; otherwise \<open>JSON.parse\<close> is called, and may throw a SyntaxError.
\<close>

definition toJSON :: "platform \<Rightarrow> frame option \<Rightarrow> call list \<Rightarrow> call list \<times> (error + json)" where
  "toJSON pf v cs =
     (case v of
        None \<Rightarrow> (cs, Inl TypeError)
      | Some f \<Rightarrow>
          (cs @ [JSONParse f],
           case JSON_parse pf f of None \<Rightarrow> Inl SyntaxError | Some j \<Rightarrow> Inr j))"

text \<open>
  Lines 208-212, in the order of the source: header, parentHeader, content, metadata,
  blobs. A throw leaves the assignments already made in place.
\<close>

definition decode_body ::
  "platform \<Rightarrow> message \<Rightarrow> frame list \<Rightarrow> nat \<Rightarrow> call list \<Rightarrow> message \<times> call list \<times> outcome" where
  "decode_body pf this fs i cs0 =
     (case toJSON pf (frame_at fs (i + 2)) cs0 of
        (cs1, Inl e) \<Rightarrow> (this, cs1, Threw e)
      | (cs1, Inr h) \<Rightarrow>
     (case toJSON pf (frame_at fs (i + 3)) cs1 of
        (cs2, Inl e) \<Rightarrow> (this\<lparr>header := h\<rparr>, cs2, Threw e)
      | (cs2, Inr p) \<Rightarrow>
     (case toJSON pf (frame_at fs (i + 5)) cs2 of
        (cs3, Inl e) \<Rightarrow> (this\<lparr>header := h, parentHeader := p\<rparr>, cs3, Threw e)
      | (cs3, Inr c) \<Rightarrow>
     (case toJSON pf (frame_at fs (i + 4)) cs3 of
        (cs4, Inl e) \<Rightarrow> (this\<lparr>header := h, parentHeader := p, content := c\<rparr>, cs4, Threw e)
      | (cs4, Inr m) \<Rightarrow>
          (this\<lparr>header := h, parentHeader := p, content := c, metadata := m,
                blobs := drop (i + 6) fs\<rparr>,
           cs4, Completed)))))"

text \<open>
  \<open>Message.prototype._decode\<close>, lines 160-217, on the message \<open>this\<close>. The result
  is the message as the call leaves it, the platform calls made, and the outcome.
\<close>

definition decode ::
  "platform \<Rightarrow> message \<Rightarrow> frame list \<Rightarrow> string option \<Rightarrow> string option
     \<Rightarrow> message \<times> call list \<times> outcome" where
  "decode pf this messageFrames scheme0 key0 =
     (let scheme = js_or scheme0 ''sha256'';
          key = js_or key0 '''';
          (i, ids) = scan_idents messageFrames 0 [];
          this1 = this\<lparr>idents := ids\<rparr>
      in if int (length messageFrames) - int i < 5
         then (this1, [], Aborted NotEnoughFrames)
         else (case frame_at messageFrames i of
                 None \<Rightarrow> (this1, [], Threw TypeError)
               | Some d \<Rightarrow>
                   if d \<noteq> DELIMITER then (this1, [], Aborted MissingDelimiter)
                   else if key \<noteq> '''' then
                     (case check_signature pf this1 messageFrames i scheme key of
                        (this2, cs, Completed) \<Rightarrow> decode_body pf this2 messageFrames i cs
                      | (this2, cs, r) \<Rightarrow> (this2, cs, r))
                   else decode_body pf this1 messageFrames i []))"

subsection \<open>_encode\<close>

text \<open>
  \<open>Message.prototype._encode\<close>, lines 227-259. \<open>new Buffer(s, "utf8")\<close> is the bytes
  of \<open>s\<close>.
\<close>

definition encode :: "platform \<Rightarrow> message \<Rightarrow> string option \<Rightarrow> string option \<Rightarrow> frame list" where
  "encode pf this scheme0 key0 =
     (let scheme = js_or scheme0 ''sha256'';
          key = js_or key0 '''';
          header1 = JSON_stringify pf (header this);
          parentHeader1 = JSON_stringify pf (parentHeader this);
          metadata1 = JSON_stringify pf (metadata this);
          content1 = JSON_stringify pf (content this);
          signature = (if key \<noteq> ''''
                       then createHmac pf scheme key [header1, parentHeader1, metadata1, content1]
                       else '''')
      in idents this @ [DELIMITER, signature, header1, parentHeader1, metadata1, content1])"

subsection \<open>respond\<close>

text \<open>
  Truthiness of a value (\<open>None\<close> is \<open>undefined\<close>): \<open>undefined\<close>, \<open>null\<close>,
  \<open>false\<close>, \<open>0\<close> and the empty string are falsy, everything else is truthy.
\<close>

definition truthy :: "json option \<Rightarrow> bool" where
  "truthy v =
     (case v of
        None \<Rightarrow> False
      | Some JNull \<Rightarrow> False
      | Some (JBool b) \<Rightarrow> b
      | Some (JNum n) \<Rightarrow> n \<noteq> 0
      | Some (JStr s) \<Rightarrow> s \<noteq> []
      | Some (JArr xs) \<Rightarrow> True
      | Some (JObj kvs) \<Rightarrow> True)"

text \<open>
  The property read \<open>v.name\<close>, for the names the source reads (\<open>username\<close>,
  \<open>session\<close>, \<open>version\<close>, which no built-in prototype defines): a TypeError on
  \<open>null\<close>, the property's value on an object (\<open>undefined\<close> when it has none), and
  \<open>undefined\<close> on the other values.
\<close>

definition get_property :: "json \<Rightarrow> string \<Rightarrow> error + json option" where
  "get_property v name =
     (case v of
        JNull \<Rightarrow> Inl TypeError
      | JObj kvs \<Rightarrow> Inr (case map_of kvs name of None \<Rightarrow> None | Some x \<Rightarrow> x)
      | JBool b \<Rightarrow> Inr None
      | JNum n \<Rightarrow> Inr None
      | JStr s \<Rightarrow> Inr None
      | JArr xs \<Rightarrow> Inr None)"

text \<open>
  The assignment \<open>o.name = v\<close> on the properties of an object, kept in insertion
  order: an existing property is overwritten in place, a new one is appended.
\<close>

primrec set_property ::
  "string \<Rightarrow> json option \<Rightarrow> (string \<times> json option) list \<Rightarrow> (string \<times> json option) list" where
  "set_property name v [] = [(name, v)]"
| "set_property name v (p # ps) =
     (if fst p = name then (name, v) # ps else p # set_property name v ps)"

text \<open>\<open>v || {}\<close>.\<close>

definition or_empty_object :: "json option \<Rightarrow> json" where
  "or_empty_object v =
     (case v of None \<Rightarrow> JObj [] | Some j \<Rightarrow> if truthy (Some j) then j else JObj [])"

text \<open>
  \<open>Message.prototype.respond\<close>, lines 123-148. \<open>uuid\<close> is the value that
  \<open>uuid.v4()\<close> returns in this call; \<open>send\<close> is the \<open>send\<close> method of the socket
  given, acting on the socket's state. The four arguments after the socket may be
  \<open>undefined\<close> (\<open>None\<close>). The result is the socket after \<open>socket.send(response)\<close>,
  or the error thrown before it.
\<close>

definition respond ::
  "(message \<Rightarrow> 's \<Rightarrow> 's) \<Rightarrow> string \<Rightarrow> message \<Rightarrow> 's
     \<Rightarrow> json option \<Rightarrow> json option \<Rightarrow> json option \<Rightarrow> json option \<Rightarrow> error + 's" where
  "respond send uuid this socket messageType content0 metadata0 protocolVersion =
     (case get_property (header this) ''username'' of
        Inl e \<Rightarrow> Inl e
      | Inr username \<Rightarrow>
     (case get_property (header this) ''session'' of
        Inl e \<Rightarrow> Inl e
      | Inr session \<Rightarrow>
     (case (if truthy (Some (header this)) then get_property (header this) ''version''
            else Inr None) of
        Inl e \<Rightarrow> Inl e
      | Inr version \<Rightarrow>
          (let header1 = [(''msg_id'', Some (JStr uuid)), (''username'', username),
                          (''session'', session), (''msg_type'', messageType)];
               header2 = (if truthy version then set_property ''version'' version header1
                          else header1);
               header3 = (if truthy protocolVersion
                          then set_property ''version'' protocolVersion header2
                          else header2);
               response = new_Message
                 \<lparr>idents := idents this,
                  header := JObj header3,
                  parentHeader := header this,
                  content := or_empty_object content0,
                  metadata := or_empty_object metadata0\<rparr>
           in Inr (send response socket)))))"

section \<open>Socket\<close>

text \<open>
  A function value is known by its identity: a function of the user's, or the closure
  that \<open>on\<close> allocates around a listener (lines 319-323), numbered in the order of
  allocation.
\<close>

datatype fn = User nat | Wrapped nat nat

text \<open>
  The state of a JMP socket: the \<open>_jmp\<close> object of lines 271-275, and what the
  underlying \<open>zmq.Socket\<close> holds: its type, the listeners registered for each event in
  the order of registration, and the frames handed to its \<open>send\<close> with their flags.
\<close>

record socket =
  jmp_scheme :: "string option"
  jmp_key :: "string option"
  jmp_listeners :: "(nat \<times> fn) list"
  socket_type :: string
  registered :: "(string \<times> fn) list"
  sent :: "(frame list \<times> int option) list"
  closures :: nat

definition Socket :: "string \<Rightarrow> string option \<Rightarrow> string option \<Rightarrow> socket" where
  "Socket socketType scheme key =
     \<lparr>jmp_scheme = scheme, jmp_key = key, jmp_listeners = [],
      socket_type = socketType, registered = [], sent = [], closures = 0\<rparr>"

subsection \<open>The underlying transport\<close>

text \<open>
  Modelled from the spec: the transport that the adapter extends, \<open>zmq.Socket\<close>, is
  not under \<open>src/\<close>. The specification requires of it \<open>send(frames, flags)\<close> and the
  listener methods \<open>on\<close>, \<open>once\<close>, \<open>removeListener\<close> and \<open>removeAllListeners\<close>,
  which \<open>zmq.Socket\<close> inherits from Node's EventEmitter. \<open>on\<close> appends the listener
  to those of the event. \<open>removeListener(event, listener)\<close> throws a TypeError when
  \<open>listener\<close> is not a function, and otherwise removes the most recently added
  registration of that listener for that event, if there is one. In both cases it leaves
  every other registration in place. \<open>send\<close> takes the frames and the flags.
\<close>

definition p_on :: "socket \<Rightarrow> string \<Rightarrow> fn \<Rightarrow> socket" where
  "p_on s event f = s\<lparr>registered := registered s @ [(event, f)]\<rparr>"

definition p_removeListener :: "socket \<Rightarrow> string option \<Rightarrow> fn option \<Rightarrow> socket \<times> error option" where
  "p_removeListener s event listener =
     (case listener of
        None \<Rightarrow> (s, Some TypeError)
      | Some f \<Rightarrow>
          (case event of
             None \<Rightarrow> (s, None)
           | Some ev \<Rightarrow> (s\<lparr>registered := rev (remove1 (ev, f) (rev (registered s)))\<rparr>, None)))"

definition p_send :: "socket \<Rightarrow> frame list \<Rightarrow> int option \<Rightarrow> socket" where
  "p_send s frames flags = s\<lparr>sent := sent s @ [(frames, flags)]\<rparr>"

subsection \<open>send, on, removeAllListeners\<close>

text \<open>What \<open>send\<close> is given: a \<open>Message\<close>, or frames to pass through.\<close>

datatype payload = OfMessage message | OfFrames "frame list"

definition Socket_send :: "platform \<Rightarrow> socket \<Rightarrow> payload \<Rightarrow> int option \<Rightarrow> socket" where
  "Socket_send pf s message flags =
     (case message of
        OfMessage m \<Rightarrow> p_send s (encode pf m (jmp_scheme s) (jmp_key s)) flags
      | OfFrames fs \<Rightarrow> p_send s fs flags)"

text \<open>
  \<open>Socket.prototype.on\<close>, lines 310-327, for a listener of the user's with identity
  \<open>listener\<close>.
\<close>

definition Socket_on :: "socket \<Rightarrow> string \<Rightarrow> nat \<Rightarrow> socket" where
  "Socket_on s event listener =
     (if event \<noteq> ''message'' then p_on s event (User listener)
      else (let wrapped = Wrapped (closures s) listener;
                s1 = s\<lparr>closures := Suc (closures s)\<rparr>;
                s2 = s1\<lparr>jmp_listeners := jmp_listeners s1 @ [(listener, wrapped)]\<rparr>
            in p_on s2 event wrapped))"

text \<open>
  \<open>Socket.prototype.removeAllListeners\<close>, lines 392-400. \<open>event = None\<close> is the call
  without an argument. \<open>arguments\<close> never holds a listener, so the transport's
  \<open>removeListener\<close> is applied without one.
\<close>

definition Socket_removeAllListeners :: "socket \<Rightarrow> string option \<Rightarrow> socket \<times> error option" where
  "Socket_removeAllListeners s event =
     (let s1 = (if event = None \<or> event = Some ''message''
                then s\<lparr>jmp_listeners := []\<rparr> else s)
      in p_removeListener s1 event None)"

subsection \<open>Delivery of received frames\<close>

text \<open>
  A call of a user's function is recorded with its argument: the decoded message for a
  listener called by a wrapper, the raw frames for a function the transport calls
  directly.
\<close>

datatype invocation = Invoke nat payload

text \<open>
  The body of the closure of lines 319-323, called with the frames \<open>args\<close>: a throw
  of \<open>_decode\<close> leaves the closure before the listener is called.
\<close>

definition wrapped_body :: "platform \<Rightarrow> socket \<Rightarrow> nat \<Rightarrow> frame list \<Rightarrow> invocation list \<times> error option" where
  "wrapped_body pf s listener args =
     (case decode pf new_Message args (jmp_scheme s) (jmp_key s) of
        (message, cs, Threw e) \<Rightarrow> ([], Some e)
      | (message, cs, r) \<Rightarrow> ([Invoke listener (OfMessage message)], None))"

fun call_fn :: "platform \<Rightarrow> socket \<Rightarrow> fn \<Rightarrow> frame list \<Rightarrow> invocation list \<times> error option" where
  "call_fn pf s (User n) args = ([Invoke n (OfFrames args)], None)"
| "call_fn pf s (Wrapped c listener) args = wrapped_body pf s listener args"

text \<open>
  Modelled from the spec: the transport, which is not under \<open>src/\<close>, delivers each
  received frame sequence to the registered handlers. It emits an event by calling the
  listeners registered for it in order; a throw of one of them ends the emission.
\<close>

fun call_all :: "platform \<Rightarrow> socket \<Rightarrow> fn list \<Rightarrow> frame list \<Rightarrow> invocation list \<times> error option" where
  "call_all pf s [] args = ([], None)"
| "call_all pf s (f # fs) args =
     (case call_fn pf s f args of
        (calls1, Some e) \<Rightarrow> (calls1, Some e)
      | (calls1, None) \<Rightarrow>
          (case call_all pf s fs args of (calls2, r) \<Rightarrow> (calls1 @ calls2, r)))"

definition emit :: "platform \<Rightarrow> socket \<Rightarrow> string \<Rightarrow> frame list \<Rightarrow> invocation list \<times> error option" where
  "emit pf s event args =
     call_all pf s (map snd (filter (\<lambda>(e, f). e = event) (registered s))) args"

section \<open>A platform for the examples\<close>

text \<open>
  A fragment of the platform, for evaluating the definitions on concrete inputs: a
  table of JSON texts with their values, read one way by \<open>JSON.parse\<close> and the other
  way by \<open>JSON.stringify\<close> (the examples only serialise values of the table), and a
  stand-in for the HMAC that joins the scheme, the key and the chunks.
\<close>

definition sample_texts :: "(string \<times> json) list" where
  "sample_texts =
     [(''{}'', JObj []),
      (''{\"msg_id\":\"a\"}'', JObj [(''msg_id'', Some (JStr ''a''))]),
      (''{\"status\":\"ok\"}'', JObj [(''status'', Some (JStr ''ok''))]),
      (''[]'', JArr []), (''null'', JNull), (''5'', JNum 5), (''true'', JBool True)]"

text \<open>The request of the specification's example, with one identity.\<close>

definition sample_request :: message where
  "sample_request =
     new_Message
       \<lparr>idents := [''a''],
        header := JObj [(''msg_id'', Some (JStr ''a'')), (''username'', Some (JStr ''u'')),
                        (''session'', Some (JStr ''s'')),
                        (''msg_type'', Some (JStr ''execute_request'')),
                        (''version'', Some (JStr ''5.0''))]\<rparr>"

definition sample_platform :: platform where
  "sample_platform =
     \<lparr>JSON_parse = map_of sample_texts,
      JSON_stringify = (\<lambda>j. case find (\<lambda>(t, v). v = j) sample_texts of
                              None \<Rightarrow> ''null'' | Some (t, v) \<Rightarrow> t),
      createHmac = (\<lambda>scheme key chunks. scheme @ '':'' @ key @ '':'' @ concat chunks)\<rparr>"

section \<open>Properties of the scan\<close>

lemma scan_idents_takeWhile:
  "i \<le> length fs \<Longrightarrow>
   scan_idents fs i ids =
     (i + length (takeWhile (\<lambda>f. f \<noteq> DELIMITER) (drop i fs)),
      ids @ takeWhile (\<lambda>f. f \<noteq> DELIMITER) (drop i fs))"
proof (induction fs i ids rule: scan_idents.induct)
  case (1 fs i ids)
  show ?case
  proof (cases "i < length fs")
    case False
    then show ?thesis by (subst scan_idents.simps) simp
  next
    case True
    then have d: "drop i fs = fs ! i # drop (Suc i) fs"
      by (simp add: Cons_nth_drop_Suc)
    show ?thesis
    proof (cases "fs ! i = DELIMITER")
      case True
      with \<open>i < length fs\<close> d show ?thesis
        by (subst scan_idents.simps) simp
    next
      case False
      with \<open>i < length fs\<close> d "1.IH" show ?thesis
        by (subst scan_idents.simps) simp
    qed
  qed
qed

text \<open>
  The scan from the start: the identities are the frames before the first frame equal
  to the delimiter, and \<open>i\<close> is their number.
\<close>

lemma scan_idents_start:
  "scan_idents fs 0 [] =
     (length (takeWhile (\<lambda>f. f \<noteq> DELIMITER) fs), takeWhile (\<lambda>f. f \<noteq> DELIMITER) fs)"
  using scan_idents_takeWhile [of 0 fs "[]"] by simp

lemma scan_idents_delimited:
  "DELIMITER \<notin> set ids \<Longrightarrow> scan_idents (ids @ DELIMITER # rest) 0 [] = (length ids, ids)"
proof -
  assume "DELIMITER \<notin> set ids"
  then have tw: "takeWhile (\<lambda>f. f \<noteq> DELIMITER) (ids @ DELIMITER # rest) = ids"
    by (induction ids) auto
  show ?thesis by (simp only: scan_idents_start tw)
qed

lemma scan_idents_no_delimiter:
  "DELIMITER \<notin> set fs \<Longrightarrow> scan_idents fs 0 [] = (length fs, fs)"
proof -
  assume "DELIMITER \<notin> set fs"
  then have tw: "takeWhile (\<lambda>f. f \<noteq> DELIMITER) fs = fs"
    by (induction fs) auto
  show ?thesis by (simp only: scan_idents_start tw)
qed

section \<open>Properties of \<open>check_signature\<close> and \<open>decode_body\<close>\<close>

lemma frame_at_length: "frame_at (ids @ x # xs) (length ids) = Some x"
  by (simp add: frame_at_def)

lemma check_signature_delimited:
  "check_signature pf m (ids @ d # sg # h # p # md # c # bl) (length ids) scheme key =
     (let expected = createHmac pf scheme key [h, p, md, c]
      in (m\<lparr>signatureOK := Some (expected = sg)\<rparr>,
          [CreateHmac scheme key, Digest [h, p, md, c]],
          if expected = sg then Completed else Aborted (IncorrectSignature sg expected)))"
  by (simp add: check_signature_def frame_at_def nth_append Let_def)

lemma check_signature_cases:
  "check_signature pf m fs i scheme key = (m', cs, r) \<Longrightarrow>
     (m' = m \<and> (\<exists>e. r = Threw e) \<and> (\<forall>x. Digest x \<notin> set cs)) \<or>
     (m' = m\<lparr>signatureOK := Some True\<rparr> \<and> r = Completed) \<or>
     (m' = m\<lparr>signatureOK := Some False\<rparr> \<and> (\<exists>a b. r = Aborted (IncorrectSignature a b)))"
  by (auto simp add: check_signature_def Let_def split: option.splits if_splits)

lemma decode_body_delimited:
  "JSON_parse pf h = Some hv \<Longrightarrow> JSON_parse pf p = Some pv \<Longrightarrow>
   JSON_parse pf md = Some mv \<Longrightarrow> JSON_parse pf c = Some cv \<Longrightarrow>
   decode_body pf m (ids @ d # sg # h # p # md # c # bl) (length ids) cs =
     (m\<lparr>header := hv, parentHeader := pv, content := cv, metadata := mv, blobs := bl\<rparr>,
      cs @ [JSONParse h, JSONParse p, JSONParse c, JSONParse md], Completed)"
  by (simp add: decode_body_def toJSON_def frame_at_def nth_append)

lemma decode_body_not_aborted: "snd (snd (decode_body pf m fs i cs)) \<noteq> Aborted d"
  by (simp add: decode_body_def toJSON_def split: option.splits prod.splits sum.splits)

lemma decode_body_keeps:
  "idents (fst (decode_body pf m fs i cs)) = idents m \<and>
   signatureOK (fst (decode_body pf m fs i cs)) = signatureOK m"
  by (simp add: decode_body_def toJSON_def split: option.splits prod.splits sum.splits)

lemma decode_body_calls:
  "Digest x \<in> set (fst (snd (decode_body pf m fs i cs))) \<Longrightarrow> Digest x \<in> set cs"
  by (auto simp add: decode_body_def toJSON_def split: option.splits prod.splits sum.splits)

section \<open>Properties of \<open>decode\<close> on all frames\<close>

lemma decode_idents:
  "idents (fst (decode pf m fs scheme key)) = takeWhile (\<lambda>f. f \<noteq> DELIMITER) fs"
proof -
  let ?ids = "takeWhile (\<lambda>f. f \<noteq> DELIMITER) fs"
  obtain m' cs r where c: "check_signature pf (m\<lparr>idents := ?ids\<rparr>) fs
      (length ?ids) (js_or scheme ''sha256'') (js_or key '''') = (m', cs, r)"
    by (cases "check_signature pf (m\<lparr>idents := ?ids\<rparr>) fs
      (length ?ids) (js_or scheme ''sha256'') (js_or key '''')") auto
  from check_signature_cases [OF c] have "idents m' = ?ids"
    by auto
  with c show ?thesis
    by (simp add: decode_def scan_idents_start Let_def decode_body_keeps
        split: option.splits outcome.splits)
qed

lemma decode_aborted:
  assumes "snd (snd (decode pf m fs scheme key)) = Aborted d"
  shows "fst (decode pf m fs scheme key) =
           m\<lparr>idents := takeWhile (\<lambda>f. f \<noteq> DELIMITER) fs,
             signatureOK := (case d of IncorrectSignature a b \<Rightarrow> Some False
                             | NotEnoughFrames \<Rightarrow> signatureOK m
                             | MissingDelimiter \<Rightarrow> signatureOK m)\<rparr>"
proof -
  let ?ids = "takeWhile (\<lambda>f. f \<noteq> DELIMITER) fs"
  obtain m' cs r where c: "check_signature pf (m\<lparr>idents := ?ids\<rparr>) fs
      (length ?ids) (js_or scheme ''sha256'') (js_or key '''') = (m', cs, r)"
    by (cases "check_signature pf (m\<lparr>idents := ?ids\<rparr>) fs
      (length ?ids) (js_or scheme ''sha256'') (js_or key '''')") auto
  note cc = check_signature_cases [OF c]
  from assms c cc show ?thesis
    by (auto simp add: decode_def scan_idents_start Let_def decode_body_not_aborted
        split: option.splits outcome.splits if_splits)
qed

text \<open>
  The test of line 179 never fails: when the scan ends without a \<open>break\<close>, \<open>i\<close> is
  the number of frames and the test of line 173 has returned already.
\<close>

lemma decode_never_missing_delimiter:
  "snd (snd (decode pf m fs scheme key)) \<noteq> Aborted MissingDelimiter"
proof -
  let ?ids = "takeWhile (\<lambda>f. f \<noteq> DELIMITER) fs"
  obtain m' cs r where c: "check_signature pf (m\<lparr>idents := ?ids\<rparr>) fs
      (length ?ids) (js_or scheme ''sha256'') (js_or key '''') = (m', cs, r)"
    by (cases "check_signature pf (m\<lparr>idents := ?ids\<rparr>) fs
      (length ?ids) (js_or scheme ''sha256'') (js_or key '''')") auto
  note cc = check_signature_cases [OF c]
  have d: "fs ! length ?ids = DELIMITER" if "length ?ids < length fs"
    using nth_length_takeWhile [OF that] by simp
  from c cc d show ?thesis
    by (auto simp add: decode_def scan_idents_start Let_def decode_body_not_aborted
        frame_at_def split: option.splits outcome.splits if_splits)
qed

lemma decode_digest:
  assumes "Digest x \<in> set (fst (snd (decode pf m fs scheme key)))"
  shows "signatureOK (fst (decode pf m fs scheme key)) \<noteq> None"
proof -
  let ?ids = "takeWhile (\<lambda>f. f \<noteq> DELIMITER) fs"
  obtain m' cs r where c: "check_signature pf (m\<lparr>idents := ?ids\<rparr>) fs
      (length ?ids) (js_or scheme ''sha256'') (js_or key '''') = (m', cs, r)"
    by (cases "check_signature pf (m\<lparr>idents := ?ids\<rparr>) fs
      (length ?ids) (js_or scheme ''sha256'') (js_or key '''')") auto
  note cc = check_signature_cases [OF c]
  from assms c cc show ?thesis
    by (auto simp add: decode_def scan_idents_start Let_def decode_body_keeps
        dest: decode_body_calls split: option.splits outcome.splits if_splits)
qed

lemma decode_no_key_signatureOK:
  assumes "key = None \<or> key = Some ''''"
  shows "signatureOK (fst (decode pf m fs scheme key)) = signatureOK m"
  using assms
  by (auto simp add: decode_def scan_idents_start Let_def decode_body_keeps js_or_def
      split: option.splits)

section \<open>Properties of \<open>encode\<close>, and of \<open>decode\<close> on frames with a delimiter\<close>

lemma encode_frames:
  "encode pf m scheme key =
     idents m @ DELIMITER #
       (if js_or key '''' = '''' then ''''
        else createHmac pf (js_or scheme ''sha256'') (js_or key '''')
               [JSON_stringify pf (header m), JSON_stringify pf (parentHeader m),
                JSON_stringify pf (metadata m), JSON_stringify pf (content m)]) #
       [JSON_stringify pf (header m), JSON_stringify pf (parentHeader m),
        JSON_stringify pf (metadata m), JSON_stringify pf (content m)]"
  by (simp add: encode_def Let_def)

text \<open>
  On frames with a delimiter, after identities that hold none, the scan stops at the
  delimiter; the test of line 173 then passes exactly when at least four frames follow
  it.
\<close>

lemma decode_delimited:
  assumes "DELIMITER \<notin> set ids"
  shows "decode pf m (ids @ DELIMITER # rest) scheme key =
    (if length rest < 4 then (m\<lparr>idents := ids\<rparr>, [], Aborted NotEnoughFrames)
     else if js_or key '''' \<noteq> '''' then
        (case check_signature pf (m\<lparr>idents := ids\<rparr>) (ids @ DELIMITER # rest) (length ids)
                (js_or scheme ''sha256'') (js_or key '''') of
           (this2, cs, Completed) \<Rightarrow> decode_body pf this2 (ids @ DELIMITER # rest) (length ids) cs
         | (this2, cs, r) \<Rightarrow> (this2, cs, r))
     else decode_body pf (m\<lparr>idents := ids\<rparr>) (ids @ DELIMITER # rest) (length ids) [])"
  using assms by (simp add: decode_def scan_idents_delimited frame_at_length Let_def)

lemma decode_keyed_delimited:
  assumes "DELIMITER \<notin> set ids" and "k \<noteq> ''''"
  shows "decode pf m (ids @ DELIMITER # sg # h # p # md # c # bl) scheme (Some k) =
    (if createHmac pf (js_or scheme ''sha256'') k [h, p, md, c] = sg
     then decode_body pf (m\<lparr>idents := ids, signatureOK := Some True\<rparr>)
            (ids @ DELIMITER # sg # h # p # md # c # bl) (length ids)
            [CreateHmac (js_or scheme ''sha256'') k, Digest [h, p, md, c]]
     else (m\<lparr>idents := ids, signatureOK := Some False\<rparr>,
           [CreateHmac (js_or scheme ''sha256'') k, Digest [h, p, md, c]],
           Aborted (IncorrectSignature sg
             (createHmac pf (js_or scheme ''sha256'') k [h, p, md, c]))))"
  using assms
  by (simp add: decode_delimited check_signature_delimited js_or_def Let_def)

lemma decode_unkeyed_delimited:
  assumes "DELIMITER \<notin> set ids" and "key = None \<or> key = Some ''''"
  shows "decode pf m (ids @ DELIMITER # sg # h # p # md # c # bl) scheme key =
     decode_body pf (m\<lparr>idents := ids\<rparr>) (ids @ DELIMITER # sg # h # p # md # c # bl)
       (length ids) []"
  using assms by (auto simp add: decode_delimited js_or_def)

text \<open>The decodes that the examples share.\<close>

lemma sample_decode_wrong_signature:
  "decode sample_platform new_Message
     [''a'', DELIMITER, ''bad'', ''{\"msg_id\":\"a\"}'', ''{}'', ''{}'', ''{}''] None (Some ''k'')
   = (new_Message\<lparr>idents := [''a''], signatureOK := Some False\<rparr>,
      [CreateHmac ''sha256'' ''k'', Digest [''{\"msg_id\":\"a\"}'', ''{}'', ''{}'', ''{}'']],
      Aborted (IncorrectSignature ''bad'' ''sha256:k:{\"msg_id\":\"a\"}{}{}{}''))"
  using decode_keyed_delimited
    [where ids = "[''a'']" and k = "''k''" and pf = sample_platform and m = new_Message
       and sg = "''bad''" and h = "''{\"msg_id\":\"a\"}''" and p = "''{}''" and md = "''{}''"
       and c = "''{}''" and bl = "[]" and scheme = None]
  by (simp add: DELIMITER_def sample_platform_def js_or_def)

lemma sample_decode_four_frames:
  "decode sample_platform new_Message
     [''a'', DELIMITER, '''', ''{\"msg_id\":\"a\"}'', ''{}'', ''{}''] None None
   = (new_Message\<lparr>idents := [''a''], header := JObj [(''msg_id'', Some (JStr ''a''))],
        parentHeader := JObj []\<rparr>,
      [JSONParse ''{\"msg_id\":\"a\"}'', JSONParse ''{}''], Threw TypeError)"
  using decode_delimited
    [where ids = "[''a'']" and rest = "['''', ''{\"msg_id\":\"a\"}'', ''{}'', ''{}'']"
       and pf = sample_platform and m = new_Message and scheme = None and key = None]
  by (simp add: DELIMITER_def decode_body_def toJSON_def frame_at_def sample_platform_def
      sample_texts_def js_or_def)

lemma sample_decode_no_delimiter:
  "decode sample_platform new_Message [''x''] None None
   = (new_Message\<lparr>idents := [''x'']\<rparr>, [], Aborted NotEnoughFrames)"
proof -
  have "DELIMITER \<notin> set [''x'']" by (simp add: DELIMITER_def)
  then show ?thesis by (simp add: decode_def scan_idents_no_delimiter)
qed

section \<open>Frames without a delimiter\<close>

text \<open>
  Claim C9. On frames none of which equals the delimiter, \<open>_decode\<close> returns early
  after logging a diagnostic and does not throw. It calls neither \<open>JSON.parse\<close> nor
  the HMAC, and it leaves \<open>header\<close>, \<open>parentHeader\<close>, \<open>metadata\<close>, \<open>content\<close> and
  \<open>blobs\<close> as they were: only \<open>idents\<close> is assigned, all the frames. The diagnostic
  is the one of line 175, since the scan ends with \<open>i = messageFrames.length\<close>.
\<close>

theorem decode_missing_delimiter:
  assumes "DELIMITER \<notin> set fs"
  shows "decode pf m fs scheme key = (m\<lparr>idents := fs\<rparr>, [], Aborted NotEnoughFrames)"
  using assms by (simp add: decode_def scan_idents_no_delimiter)

text \<open>The theorem at six frames without a delimiter, decoded with a key.\<close>

theorem decode_missing_delimiter_witness:
  "DELIMITER \<notin> set [''a'', ''sig'', ''{}'', ''{}'', ''{}'', ''{}'']
   \<and> decode sample_platform new_Message [''a'', ''sig'', ''{}'', ''{}'', ''{}'', ''{}'']
         None (Some ''k'')
       = (new_Message\<lparr>idents := [''a'', ''sig'', ''{}'', ''{}'', ''{}'', ''{}'']\<rparr>, [],
          Aborted NotEnoughFrames)"
  using decode_missing_delimiter
    [where fs = "[''a'', ''sig'', ''{}'', ''{}'', ''{}'', ''{}'']" and pf = sample_platform
       and m = new_Message and scheme = None and key = "Some ''k''"]
  by (simp add: DELIMITER_def)

section \<open>A delimiter followed by fewer than five frames\<close>

text \<open>
  Claim C2 asks that a delimiter followed by fewer than five frames makes \<open>_decode\<close>
  return early, parse nothing and throw nothing. The test of line 173 compares
  \<open>messageFrames.length - i\<close>, which counts the delimiter itself, with 5. A delimiter
  followed by at most three frames fails it, and the call returns early as claimed. A
  delimiter followed by exactly four frames (signature, header, parent header,
  metadata) passes it. With a key, \<open>hmac.update(messageFrames[i + 5])\<close> then throws a
  TypeError; without one, the header and the parent header are parsed and assigned, and
  the read of the content, \<open>messageFrames[i + 5].toString()\<close>, throws a TypeError.
\<close>

theorem decode_four_frames_after_delimiter:
  assumes "DELIMITER \<notin> set ids"
  shows "(length rest < 4 \<longrightarrow>
            decode pf m (ids @ DELIMITER # rest) scheme key
              = (m\<lparr>idents := ids\<rparr>, [], Aborted NotEnoughFrames))
       \<and> (k \<noteq> '''' \<longrightarrow>
            decode pf m (ids @ [DELIMITER, sg, h, p, md]) scheme (Some k)
              = (m\<lparr>idents := ids\<rparr>, [CreateHmac (js_or scheme ''sha256'') k], Threw TypeError))
       \<and> (JSON_parse pf h = Some hv \<longrightarrow> JSON_parse pf p = Some pv \<longrightarrow>
            decode pf m (ids @ [DELIMITER, sg, h, p, md]) scheme None
              = (m\<lparr>idents := ids, header := hv, parentHeader := pv\<rparr>,
                 [JSONParse h, JSONParse p], Threw TypeError))"
  using assms
  by (simp add: decode_delimited check_signature_def decode_body_def toJSON_def js_or_def
      frame_at_def nth_append)

text \<open>
  The theorem at one identity and the delimiter, followed by three frames, and by four
  frames with and without a key.
\<close>

theorem decode_four_frames_after_delimiter_witness:
  "DELIMITER \<notin> set [''a'']
   \<and> decode sample_platform new_Message
         [''a'', DELIMITER, '''', ''{\"msg_id\":\"a\"}'', ''{}''] None None
       = (new_Message\<lparr>idents := [''a'']\<rparr>, [], Aborted NotEnoughFrames)
   \<and> decode sample_platform new_Message
         [''a'', DELIMITER, '''', ''{\"msg_id\":\"a\"}'', ''{}'', ''{}''] None (Some ''k'')
       = (new_Message\<lparr>idents := [''a'']\<rparr>, [CreateHmac ''sha256'' ''k''], Threw TypeError)
   \<and> decode sample_platform new_Message
         [''a'', DELIMITER, '''', ''{\"msg_id\":\"a\"}'', ''{}'', ''{}''] None None
       = (new_Message\<lparr>idents := [''a''], header := JObj [(''msg_id'', Some (JStr ''a''))],
            parentHeader := JObj []\<rparr>,
          [JSONParse ''{\"msg_id\":\"a\"}'', JSONParse ''{}''], Threw TypeError)"
  using decode_four_frames_after_delimiter
    [where ids = "[''a'']" and rest = "['''', ''{\"msg_id\":\"a\"}'', ''{}'']"
       and pf = sample_platform and m = new_Message and scheme = None and key = None
       and k = "''k''" and sg = "''''" and h = "''{\"msg_id\":\"a\"}''" and p = "''{}''"
       and md = "''{}''" and hv = "JObj [(''msg_id'', Some (JStr ''a''))]" and pv = "JObj []"]
  by (simp add: DELIMITER_def sample_platform_def sample_texts_def js_or_def)

section \<open>What an aborted decode assigns\<close>

text \<open>
  Claim C10, amended. Every call of \<open>_decode\<close> assigns to \<open>idents\<close> the frames
  before the first frame equal to the delimiter (all the frames when there is none),
  whatever the outcome. When the call returns early after a diagnostic, \<open>header\<close>,
  \<open>parentHeader\<close>, \<open>metadata\<close>, \<open>content\<close> and \<open>blobs\<close> keep their prior values;
  \<open>signatureOK\<close> keeps its prior value after the frame-count diagnostic, and is
  \<open>false\<close> after the signature diagnostic.
\<close>

theorem decode_abort_keeps_body:
  "idents (fst (decode pf m fs scheme key)) = takeWhile (\<lambda>f. f \<noteq> DELIMITER) fs
   \<and> (snd (snd (decode pf m fs scheme key)) = Aborted d \<longrightarrow>
        fst (decode pf m fs scheme key)
          = m\<lparr>idents := takeWhile (\<lambda>f. f \<noteq> DELIMITER) fs,
              signatureOK := (case d of
                  IncorrectSignature obtained expected \<Rightarrow> Some False
                | NotEnoughFrames \<Rightarrow> signatureOK m
                | MissingDelimiter \<Rightarrow> signatureOK m)\<rparr>)"
  using decode_idents decode_aborted by blast

text \<open>
  The theorem at frames with a wrong signature, decoded with a key into a new message.
\<close>

theorem decode_abort_keeps_body_witness:
  "snd (snd (decode sample_platform new_Message
       [''a'', DELIMITER, ''bad'', ''{\"msg_id\":\"a\"}'', ''{}'', ''{}'', ''{}''] None (Some ''k'')))
     = Aborted (IncorrectSignature ''bad'' ''sha256:k:{\"msg_id\":\"a\"}{}{}{}'')
   \<and> fst (decode sample_platform new_Message
       [''a'', DELIMITER, ''bad'', ''{\"msg_id\":\"a\"}'', ''{}'', ''{}'', ''{}''] None (Some ''k''))
     = new_Message\<lparr>idents := [''a''], signatureOK := Some False\<rparr>"
  using decode_abort_keeps_body
    [where pf = sample_platform and m = new_Message and scheme = None and key = "Some ''k''"
       and fs = "[''a'', DELIMITER, ''bad'', ''{\"msg_id\":\"a\"}'', ''{}'', ''{}'', ''{}'']"
       and d = "IncorrectSignature ''bad'' ''sha256:k:{\"msg_id\":\"a\"}{}{}{}''"]
  unfolding sample_decode_wrong_signature
  by (simp add: DELIMITER_def)

text \<open>
  Claim C10 as stated says that all fields other than \<open>idents\<close> keep their prior
  values when the decode aborts. On a signature mismatch \<open>signatureOK\<close> does not: it
  is unset on a new message, and \<open>false\<close> after the aborted call.
\<close>

theorem decode_abort_changes_signatureOK:
  "snd (snd (decode sample_platform new_Message
       [''a'', DELIMITER, ''bad'', ''{\"msg_id\":\"a\"}'', ''{}'', ''{}'', ''{}''] None (Some ''k'')))
     = Aborted (IncorrectSignature ''bad'' ''sha256:k:{\"msg_id\":\"a\"}{}{}{}'')
   \<and> signatureOK new_Message = None
   \<and> signatureOK (fst (decode sample_platform new_Message
       [''a'', DELIMITER, ''bad'', ''{\"msg_id\":\"a\"}'', ''{}'', ''{}'', ''{}''] None (Some ''k'')))
     = Some False"
  unfolding sample_decode_wrong_signature
  by (simp add: new_Message_def)

section \<open>Decoding with a key\<close>



section \<open>Decoding without a key\<close>

text \<open>
  Claim C8. On frames with a delimiter (after identities that hold none) followed by
  at least five frames of which the header, parent header, metadata and content frames
  are JSON, decoding with an absent or empty key parses the four frames and captures
  the blobs, whatever the signature frame \<open>sg\<close> holds; no HMAC is computed, and
  \<open>signatureOK\<close> keeps the value it had (unset, on a new message). Without a key this
  holds of \<open>signatureOK\<close> on all frames. Conversely, for every key and all frames, a
  call that reached the digest of line 194, which the comparison of line 196 follows,
  leaves \<open>signatureOK\<close> set.
\<close>

theorem decode_without_key:
  assumes "DELIMITER \<notin> set ids"
    and "key = None \<or> key = Some ''''"
    and "JSON_parse pf h = Some hv" and "JSON_parse pf p = Some pv"
    and "JSON_parse pf md = Some mv" and "JSON_parse pf c = Some cv"
  shows
    "decode pf m (ids @ DELIMITER # sg # h # p # md # c # bl) scheme key
       = (m\<lparr>idents := ids, header := hv, parentHeader := pv, content := cv, metadata := mv,
            blobs := bl\<rparr>,
          [JSONParse h, JSONParse p, JSONParse c, JSONParse md], Completed)
     \<and> signatureOK (fst (decode pf m (ids @ DELIMITER # sg # h # p # md # c # bl) scheme key))
         = signatureOK m
     \<and> (\<forall>fs. signatureOK (fst (decode pf m fs scheme key)) = signatureOK m)
     \<and> (\<forall>fs key' x. Digest x \<in> set (fst (snd (decode pf m fs scheme key'))) \<longrightarrow>
           signatureOK (fst (decode pf m fs scheme key')) \<noteq> None)"
proof -
  have 1: "decode pf m (ids @ DELIMITER # sg # h # p # md # c # bl) scheme key
       = (m\<lparr>idents := ids, header := hv, parentHeader := pv, content := cv, metadata := mv,
            blobs := bl\<rparr>,
          [JSONParse h, JSONParse p, JSONParse c, JSONParse md], Completed)"
    by (simp add: decode_unkeyed_delimited [OF assms(1) assms(2)]
        decode_body_delimited [OF assms(3) assms(4) assms(5) assms(6)])
  have 2: "signatureOK (fst (decode pf m fs scheme key)) = signatureOK m" for fs
    by (rule decode_no_key_signatureOK [OF assms(2)])
  have 3: "Digest x \<in> set (fst (snd (decode pf m fs scheme key'))) \<longrightarrow>
           signatureOK (fst (decode pf m fs scheme key')) \<noteq> None" for fs key' x
    using decode_digest by blast
  from 1 2 3 show ?thesis by simp
qed

text \<open>
  The theorem at frames whose signature frame is not empty, decoded without a key into
  a new message.
\<close>

theorem decode_without_key_witness:
  "DELIMITER \<notin> set [''a'']
   \<and> JSON_parse sample_platform ''{\"msg_id\":\"a\"}'' = Some (JObj [(''msg_id'', Some (JStr ''a''))])
   \<and> JSON_parse sample_platform ''{}'' = Some (JObj [])
   \<and> JSON_parse sample_platform ''{\"status\":\"ok\"}''
       = Some (JObj [(''status'', Some (JStr ''ok''))])
   \<and> decode sample_platform new_Message
         [''a'', DELIMITER, ''bad'', ''{\"msg_id\":\"a\"}'', ''{}'', ''{}'', ''{\"status\":\"ok\"}'',
          ''blob'']
         None None
       = (new_Message\<lparr>idents := [''a''], header := JObj [(''msg_id'', Some (JStr ''a''))],
            content := JObj [(''status'', Some (JStr ''ok''))], blobs := [''blob'']\<rparr>,
          [JSONParse ''{\"msg_id\":\"a\"}'', JSONParse ''{}'', JSONParse ''{\"status\":\"ok\"}'',
           JSONParse ''{}''],
          Completed)
   \<and> signatureOK (fst (decode sample_platform new_Message
         [''a'', DELIMITER, ''bad'', ''{\"msg_id\":\"a\"}'', ''{}'', ''{}'', ''{\"status\":\"ok\"}'',
          ''blob'']
         None None)) = None"
  using decode_without_key
    [where ids = "[''a'']" and key = None and pf = sample_platform
       and h = "''{\"msg_id\":\"a\"}''" and hv = "JObj [(''msg_id'', Some (JStr ''a''))]"
       and p = "''{}''" and pv = "JObj []" and md = "''{}''" and mv = "JObj []"
       and c = "''{\"status\":\"ok\"}''" and cv = "JObj [(''status'', Some (JStr ''ok''))]"
       and m = new_Message and sg = "''bad''" and bl = "[''blob'']" and scheme = None]
  by (simp add: DELIMITER_def sample_platform_def sample_texts_def new_Message_def)

section \<open>The frames of \<open>encode\<close>\<close>



section \<open>Round trip without a key\<close>

text \<open>
  Claim C3. Let \<open>m\<close> be a message whose identities hold no frame equal to the
  delimiter and whose \<open>header\<close>, \<open>parentHeader\<close>, \<open>metadata\<close> and \<open>content\<close> are
  JSON-serializable, that is, \<open>JSON.parse\<close> gives each of them back from its
  \<open>JSON.stringify\<close>. Decoding the frames of \<open>encode(m)\<close>, both without a key
  (absent or empty), completes and assigns \<open>idents\<close>, \<open>header\<close>, \<open>parentHeader\<close>,
  \<open>metadata\<close> and \<open>content\<close> equal to those of \<open>m\<close>. The blobs of \<open>m\<close> are not
  transmitted: \<open>blobs\<close> is assigned the empty list.
\<close>

theorem decode_encode_roundtrip:
  assumes "DELIMITER \<notin> set (idents m)"
    and "ke = None \<or> ke = Some ''''"
    and "kd = None \<or> kd = Some ''''"
    and "JSON_parse pf (JSON_stringify pf (header m)) = Some (header m)"
    and "JSON_parse pf (JSON_stringify pf (parentHeader m)) = Some (parentHeader m)"
    and "JSON_parse pf (JSON_stringify pf (metadata m)) = Some (metadata m)"
    and "JSON_parse pf (JSON_stringify pf (content m)) = Some (content m)"
  shows "decode pf m0 (encode pf m se ke) sd kd =
           (m0\<lparr>idents := idents m, header := header m, parentHeader := parentHeader m,
               content := content m, metadata := metadata m, blobs := []\<rparr>,
            [JSONParse (JSON_stringify pf (header m)),
             JSONParse (JSON_stringify pf (parentHeader m)),
             JSONParse (JSON_stringify pf (content m)),
             JSONParse (JSON_stringify pf (metadata m))],
            Completed)"
proof -
  from assms(2) have e: "encode pf m se ke =
      idents m @ DELIMITER # '''' # JSON_stringify pf (header m) #
        JSON_stringify pf (parentHeader m) # JSON_stringify pf (metadata m) #
        JSON_stringify pf (content m) # []"
    by (auto simp add: encode_frames js_or_def)
  show ?thesis
    unfolding e
    by (simp only: decode_unkeyed_delimited [OF assms(1) assms(3)]
        decode_body_delimited [OF assms(4) assms(5) assms(6) assms(7)]) simp
qed

text \<open>
  The theorem at a message with two identities, a header, a content and a blob, on
  the platform of the examples.
\<close>

theorem decode_encode_roundtrip_witness:
  "DELIMITER \<notin> set [''a'', ''b'']
   \<and> JSON_parse sample_platform
        (JSON_stringify sample_platform (JObj [(''msg_id'', Some (JStr ''a''))]))
       = Some (JObj [(''msg_id'', Some (JStr ''a''))])
   \<and> JSON_parse sample_platform (JSON_stringify sample_platform (JObj [])) = Some (JObj [])
   \<and> JSON_parse sample_platform
        (JSON_stringify sample_platform (JObj [(''status'', Some (JStr ''ok''))]))
       = Some (JObj [(''status'', Some (JStr ''ok''))])
   \<and> decode sample_platform new_Message
        (encode sample_platform
           (new_Message\<lparr>idents := [''a'', ''b''],
              header := JObj [(''msg_id'', Some (JStr ''a''))],
              content := JObj [(''status'', Some (JStr ''ok''))], blobs := [''blob'']\<rparr>)
           None None)
        None (Some '''')
       = (new_Message\<lparr>idents := [''a'', ''b''],
            header := JObj [(''msg_id'', Some (JStr ''a''))],
            content := JObj [(''status'', Some (JStr ''ok''))]\<rparr>,
          [JSONParse ''{\"msg_id\":\"a\"}'', JSONParse ''{}'', JSONParse ''{\"status\":\"ok\"}'',
           JSONParse ''{}''],
          Completed)"
  using decode_encode_roundtrip
    [where pf = sample_platform and ke = None and kd = "Some ''''" and se = None and sd = None
       and ?m0.0 = new_Message
       and m = "new_Message\<lparr>idents := [''a'', ''b''],
                  header := JObj [(''msg_id'', Some (JStr ''a''))],
                  content := JObj [(''status'', Some (JStr ''ok''))], blobs := [''blob'']\<rparr>"]
  by (simp add: DELIMITER_def sample_platform_def sample_texts_def new_Message_def)

section \<open>Responses\<close>

lemma get_property_not_null: "v \<noteq> JNull \<Longrightarrow> \<exists>x. get_property v name = Inr x"
  by (cases v) (simp_all add: get_property_def)

lemma get_property_falsy:
  "\<not> truthy (Some v) \<Longrightarrow> get_property v name = Inr x \<Longrightarrow> x = None"
  by (cases v) (simp_all add: get_property_def truthy_def)

lemma get_property_JObj:
  "get_property (JObj kvs) name = Inr (case map_of kvs name of None \<Rightarrow> None | Some x \<Rightarrow> x)"
  by (simp add: get_property_def)

lemma truthy_None: "\<not> truthy None"
  by (simp add: truthy_def)

text \<open>
  Claim C6, amended. For every message \<open>m\<close> whose header is not \<open>null\<close>,
  \<open>respond\<close> calls \<open>send\<close> once, on a response \<open>r\<close> such that:
  \<^item> the identities of \<open>r\<close> are those of \<open>m\<close>, and its parent header is the header of
    \<open>m\<close>;
  \<^item> in the header of \<open>r\<close>, \<open>msg_id\<close> is the identifier that \<open>uuid.v4()\<close> returned
    (distinct from that of \<open>m\<close> whenever the generator did not return that one),
    \<open>username\<close> and \<open>session\<close> are those of the header of \<open>m\<close>, and \<open>msg_type\<close> is
    the message type given;
  \<^item> \<open>version\<close> is the \<open>protocolVersion\<close> argument when that is truthy (given and not
    the empty string), else the \<open>version\<close> of the header of \<open>m\<close> when that is truthy,
    else undefined;
  \<^item> content and metadata are the arguments given, or empty objects when those are
    not supplied (or falsy).
\<close>

theorem respond_response:
  assumes "header m \<noteq> JNull"
  shows "\<exists>r. respond send uuid m socket messageType content0 metadata0 protocolVersion
               = Inr (send r socket)
           \<and> idents r = idents m
           \<and> parentHeader r = header m
           \<and> get_property (header r) ''msg_id'' = Inr (Some (JStr uuid))
           \<and> (get_property (header m) ''msg_id'' \<noteq> Inr (Some (JStr uuid)) \<longrightarrow>
                get_property (header r) ''msg_id'' \<noteq> get_property (header m) ''msg_id'')
           \<and> get_property (header r) ''username'' = get_property (header m) ''username''
           \<and> get_property (header r) ''session'' = get_property (header m) ''session''
           \<and> get_property (header r) ''msg_type'' = Inr messageType
           \<and> get_property (header r) ''version''
               = (if truthy protocolVersion then Inr protocolVersion
                  else if (\<exists>v. get_property (header m) ''version'' = Inr v \<and> truthy v)
                       then get_property (header m) ''version''
                       else Inr None)
           \<and> content r = or_empty_object content0
           \<and> metadata r = or_empty_object metadata0
           \<and> blobs r = [] \<and> signatureOK r = None"
proof -
  from assms obtain u where u: "get_property (header m) ''username'' = Inr u"
    using get_property_not_null by blast
  from assms obtain s where s: "get_property (header m) ''session'' = Inr s"
    using get_property_not_null by blast
  from assms obtain v where v: "get_property (header m) ''version'' = Inr v"
    using get_property_not_null by blast
  have f: "\<not> truthy (Some (header m)) \<Longrightarrow> \<not> truthy v"
    using get_property_falsy [OF _ v] by (auto simp add: truthy_def)
  define h1 where "h1 = [(''msg_id'', Some (JStr uuid)), (''username'', u), (''session'', s),
    (''msg_type'', messageType)]"
  define h2 where "h2 = (if truthy v then set_property ''version'' v h1 else h1)"
  define h3 where "h3 = (if truthy protocolVersion
    then set_property ''version'' protocolVersion h2 else h2)"
  define r where "r = new_Message\<lparr>idents := idents m, header := JObj h3,
    parentHeader := header m, content := or_empty_object content0,
    metadata := or_empty_object metadata0\<rparr>"
  have R: "respond send uuid m socket messageType content0 metadata0 protocolVersion
             = Inr (send r socket)"
    using f
    by (auto simp add: respond_def u s v Let_def r_def h3_def h2_def h1_def truthy_None)
  have h: "header r = JObj h3" by (simp add: r_def)
  have p1: "get_property (header r) ''msg_id'' = Inr (Some (JStr uuid))"
    by (simp add: h get_property_JObj h3_def h2_def h1_def)
  have p2: "get_property (header r) ''username'' = Inr u"
    by (simp add: h get_property_JObj h3_def h2_def h1_def)
  have p3: "get_property (header r) ''session'' = Inr s"
    by (simp add: h get_property_JObj h3_def h2_def h1_def)
  have p4: "get_property (header r) ''msg_type'' = Inr messageType"
    by (simp add: h get_property_JObj h3_def h2_def h1_def)
  have p5: "get_property (header r) ''version''
      = (if truthy protocolVersion then Inr protocolVersion
         else if truthy v then Inr v else Inr None)"
    by (simp add: h get_property_JObj h3_def h2_def h1_def)
  have rest: "idents r = idents m \<and> parentHeader r = header m
      \<and> content r = or_empty_object content0 \<and> metadata r = or_empty_object metadata0
      \<and> blobs r = [] \<and> signatureOK r = None"
    by (simp add: r_def new_Message_def)
  from R p1 p2 p3 p4 p5 rest show ?thesis
    by (intro exI [of _ r]) (simp add: u s v)
qed

text \<open>
  The theorem at the request of the specification's example, answered over a JMP
  socket with a content and without a \<open>protocolVersion\<close>.
\<close>

theorem respond_response_witness:
  "header sample_request \<noteq> JNull
   \<and> (\<exists>r. respond (\<lambda>r s. Socket_send sample_platform s (OfMessage r) None) ''id1''
             sample_request (Socket ''router'' None None)
             (Some (JStr ''execute_reply'')) (Some (JObj [(''status'', Some (JStr ''ok''))]))
             None None
           = Inr (Socket_send sample_platform (Socket ''router'' None None) (OfMessage r) None)
         \<and> idents r = [''a'']
         \<and> parentHeader r = header sample_request
         \<and> get_property (header r) ''msg_id'' = Inr (Some (JStr ''id1''))
         \<and> get_property (header r) ''msg_id'' \<noteq> Inr (Some (JStr ''a''))
         \<and> get_property (header r) ''username'' = Inr (Some (JStr ''u''))
         \<and> get_property (header r) ''session'' = Inr (Some (JStr ''s''))
         \<and> get_property (header r) ''msg_type'' = Inr (Some (JStr ''execute_reply''))
         \<and> get_property (header r) ''version'' = Inr (Some (JStr ''5.0''))
         \<and> content r = JObj [(''status'', Some (JStr ''ok''))]
         \<and> metadata r = JObj []
         \<and> blobs r = [] \<and> signatureOK r = None)"
  using respond_response
    [where m = sample_request
       and send = "\<lambda>r s. Socket_send sample_platform s (OfMessage r) None"
       and uuid = "''id1''" and socket = "Socket ''router'' None None"
       and messageType = "Some (JStr ''execute_reply'')"
       and ?content0.0 = "Some (JObj [(''status'', Some (JStr ''ok''))])"
       and ?metadata0.0 = None and protocolVersion = None]
  by (simp add: sample_request_def get_property_def truthy_def or_empty_object_def)

text \<open>
  Claim C6 as stated gives the response the \<open>protocolVersion\<close> argument whenever one is
  given, and sends a response for every message. Line 139 tests the truthiness of the
  argument: given the empty string, the response keeps the version of the original
  header. And on a message whose header is \<open>null\<close>, as \<open>_decode\<close> leaves it from a
  header frame \<open>null\<close>, line 132 throws a TypeError and nothing is sent.
\<close>

theorem respond_empty_protocolVersion:
  "respond (\<lambda>r s. s @ [r]) ''id1'' sample_request []
     (Some (JStr ''execute_reply'')) None None (Some (JStr ''''))
   = Inr [new_Message\<lparr>idents := [''a''],
        header := JObj [(''msg_id'', Some (JStr ''id1'')), (''username'', Some (JStr ''u'')),
          (''session'', Some (JStr ''s'')), (''msg_type'', Some (JStr ''execute_reply'')),
          (''version'', Some (JStr ''5.0''))],
        parentHeader := header sample_request\<rparr>]
   \<and> respond (\<lambda>r s. s @ [r]) ''id1'' (new_Message\<lparr>header := JNull\<rparr>) []
       (Some (JStr ''execute_reply'')) None None None
     = Inl TypeError"
  by (simp add: respond_def get_property_def truthy_def or_empty_object_def Let_def
      new_Message_def sample_request_def)

section \<open>Listeners of the \<open>message\<close> event\<close>

lemma Socket_on_message:
  "Socket_on s ''message'' l =
     s\<lparr>closures := Suc (closures s),
       jmp_listeners := jmp_listeners s @ [(l, Wrapped (closures s) l)],
       registered := registered s @ [(''message'', Wrapped (closures s) l)]\<rparr>"
  by (simp add: Socket_on_def p_on_def Let_def)

lemma fold_on_config:
  "jmp_scheme (foldl (\<lambda>s l. Socket_on s ''message'' l) s ls) = jmp_scheme s
   \<and> jmp_key (foldl (\<lambda>s l. Socket_on s ''message'' l) s ls) = jmp_key s"
  by (induction ls arbitrary: s) (simp_all add: Socket_on_message)

text \<open>
  After the registration of the listeners \<open>ls\<close>, the transport holds for the
  \<open>message\<close> event what it held before, followed by one wrapper for each of them, in
  order.
\<close>

lemma fold_on_registered:
  "\<exists>cls. map snd (filter (\<lambda>(e, f). e = ''message'')
              (registered (foldl (\<lambda>s l. Socket_on s ''message'' l) s ls)))
           = map snd (filter (\<lambda>(e, f). e = ''message'') (registered s))
             @ map (\<lambda>(c, l). Wrapped c l) cls
         \<and> map snd cls = ls"
proof (induction ls arbitrary: s)
  case Nil
  show ?case by (intro exI [of _ "[]"]) simp
next
  case (Cons l ls)
  from Cons.IH [of "Socket_on s ''message'' l"] obtain cls where
    c: "map snd (filter (\<lambda>(e, f). e = ''message'')
          (registered (foldl (\<lambda>s l. Socket_on s ''message'' l) (Socket_on s ''message'' l) ls)))
        = map snd (filter (\<lambda>(e, f). e = ''message'') (registered (Socket_on s ''message'' l)))
          @ map (\<lambda>(c, l). Wrapped c l) cls"
    and d: "map snd cls = ls"
    by blast
  have r: "registered (Socket_on s ''message'' l)
      = registered s @ [(''message'', Wrapped (closures s) l)]"
    by (simp add: Socket_on_message)
  show ?case
    by (intro exI [of _ "(closures s, l) # cls"]) (simp add: c d r)
qed

text \<open>
  Calling wrappers in turn: each decodes the frames anew, with the same result, and
  calls its listener unless the decode threw.
\<close>

lemma call_all_wrapped:
  assumes "decode pf new_Message args (jmp_scheme s) (jmp_key s) = (message, cs, r)"
  shows "call_all pf s (map (\<lambda>(c, l). Wrapped c l) cls) args =
     (case r of
        Threw e \<Rightarrow> if cls = [] then ([], None) else ([], Some e)
      | Completed \<Rightarrow> (map (\<lambda>l. Invoke l (OfMessage message)) (map snd cls), None)
      | Aborted d \<Rightarrow> (map (\<lambda>l. Invoke l (OfMessage message)) (map snd cls), None))"
proof (induction cls)
  case Nil
  show ?case by (simp split: outcome.splits)
next
  case (Cons a cls)
  obtain c l where a: "a = (c, l)" by (cases a)
  show ?case
    using Cons.IH
    by (simp add: a wrapped_body_def assms split: outcome.splits)
qed

text \<open>
  Claim C1, amended. Take a socket on which the listeners \<open>ls\<close> were registered with
  \<open>on("message", listener)\<close>, and a delivery of the frames \<open>fs\<close>. For each listener
  the adapter decodes the frames into a new message with the scheme and key of the
  socket. Whenever that decode returns, whether it ran to its end or returned early
  after a diagnostic (not enough frames, missing delimiter, wrong signature), every
  listener is called, once and in order, with the message as the decode left it. A
  listener is not called only when the decode throws: the throw of the first wrapper
  ends the delivery.
\<close>

theorem on_message_dispatch:
  assumes "decode pf new_Message fs scheme key = (message, cs, r)"
  shows "(r = Completed \<or> r = Aborted d \<longrightarrow>
            emit pf (foldl (\<lambda>s l. Socket_on s ''message'' l) (Socket t scheme key) ls)
              ''message'' fs
            = (map (\<lambda>l. Invoke l (OfMessage message)) ls, None))
       \<and> (r = Threw e \<longrightarrow>
            emit pf (foldl (\<lambda>s l. Socket_on s ''message'' l) (Socket t scheme key) (l # ls))
              ''message'' fs
            = ([], Some e))"
proof -
  let ?on = "\<lambda>s l. Socket_on s ''message'' l"
  have cfg: "jmp_scheme (foldl ?on (Socket t scheme key) xs) = scheme
      \<and> jmp_key (foldl ?on (Socket t scheme key) xs) = key" for xs
    using fold_on_config [of "Socket t scheme key" xs] by (simp add: Socket_def)
  have reg: "\<exists>cls. map snd (filter (\<lambda>(e, f). e = ''message'')
                (registered (foldl ?on (Socket t scheme key) xs)))
              = map (\<lambda>(c, l). Wrapped c l) cls \<and> map snd cls = xs" for xs
    using fold_on_registered [of "Socket t scheme key" xs] by (simp add: Socket_def)
  have dec: "decode pf new_Message fs (jmp_scheme (foldl ?on (Socket t scheme key) xs))
      (jmp_key (foldl ?on (Socket t scheme key) xs)) = (message, cs, r)" for xs
    using assms cfg by simp
  have 1: "emit pf (foldl ?on (Socket t scheme key) ls) ''message'' fs
            = (map (\<lambda>l. Invoke l (OfMessage message)) ls, None)"
    if "r = Completed \<or> r = Aborted d"
  proof -
    from reg [of ls] obtain cls where
      c: "map snd (filter (\<lambda>(e, f). e = ''message'')
                (registered (foldl ?on (Socket t scheme key) ls)))
              = map (\<lambda>(c, l). Wrapped c l) cls" and d: "map snd cls = ls"
      by blast
    have "emit pf (foldl ?on (Socket t scheme key) ls) ''message'' fs
        = call_all pf (foldl ?on (Socket t scheme key) ls) (map (\<lambda>(c, l). Wrapped c l) cls) fs"
      by (simp add: emit_def c)
    also have "\<dots> = (map (\<lambda>l. Invoke l (OfMessage message)) (map snd cls), None)"
      unfolding call_all_wrapped [OF dec [of ls]]
      using that by auto
    finally show ?thesis by (simp add: d)
  qed
  have 2: "emit pf (foldl ?on (Socket t scheme key) (l # ls)) ''message'' fs = ([], Some e)"
    if "r = Threw e"
  proof -
    from reg [of "l # ls"] obtain cls where
      c: "map snd (filter (\<lambda>(e, f). e = ''message'')
                (registered (foldl ?on (Socket t scheme key) (l # ls))))
              = map (\<lambda>(c, l). Wrapped c l) cls" and d: "map snd cls = l # ls"
      by (elim exE conjE)
    from d have "cls \<noteq> []" by auto
    have "emit pf (foldl ?on (Socket t scheme key) (l # ls)) ''message'' fs
        = call_all pf (foldl ?on (Socket t scheme key) (l # ls))
            (map (\<lambda>(c, l). Wrapped c l) cls) fs"
      by (simp only: emit_def c)
    also have "\<dots> = ([], Some e)"
      unfolding call_all_wrapped [OF dec [of "l # ls"]]
      using that \<open>cls \<noteq> []\<close> by simp
    finally show ?thesis .
  qed
  from 1 2 show ?thesis by blast
qed

text \<open>
  The theorem at two listeners and frames whose signature is wrong: both listeners
  are called with a message whose \<open>signatureOK\<close> is \<open>false\<close>. And at frames on which
  the decode throws: no listener is called.
\<close>

theorem on_message_dispatch_witness:
  "decode sample_platform new_Message
       [''a'', DELIMITER, ''bad'', ''{\"msg_id\":\"a\"}'', ''{}'', ''{}'', ''{}''] None (Some ''k'')
     = (new_Message\<lparr>idents := [''a''], signatureOK := Some False\<rparr>,
        [CreateHmac ''sha256'' ''k'', Digest [''{\"msg_id\":\"a\"}'', ''{}'', ''{}'', ''{}'']],
        Aborted (IncorrectSignature ''bad'' ''sha256:k:{\"msg_id\":\"a\"}{}{}{}''))
   \<and> emit sample_platform
        (Socket_on (Socket_on (Socket ''router'' None (Some ''k'')) ''message'' 7) ''message'' 8)
        ''message'' [''a'', DELIMITER, ''bad'', ''{\"msg_id\":\"a\"}'', ''{}'', ''{}'', ''{}'']
     = ([Invoke 7 (OfMessage (new_Message\<lparr>idents := [''a''], signatureOK := Some False\<rparr>)),
         Invoke 8 (OfMessage (new_Message\<lparr>idents := [''a''], signatureOK := Some False\<rparr>))],
        None)
   \<and> snd (snd (decode sample_platform new_Message
        [''a'', DELIMITER, '''', ''{\"msg_id\":\"a\"}'', ''{}'', ''{}''] None None))
     = Threw TypeError
   \<and> emit sample_platform
        (Socket_on (Socket_on (Socket ''router'' None None) ''message'' 7) ''message'' 8)
        ''message'' [''a'', DELIMITER, '''', ''{\"msg_id\":\"a\"}'', ''{}'', ''{}'']
     = ([], Some TypeError)"
  using on_message_dispatch
    [OF sample_decode_wrong_signature,
     where d = "IncorrectSignature ''bad'' ''sha256:k:{\"msg_id\":\"a\"}{}{}{}''"
       and t = "''router''" and ls = "[7, 8]"]
    on_message_dispatch
    [OF sample_decode_four_frames, where e = TypeError and t = "''router''" and l = 7
       and ls = "[8]"]
  by (simp add: sample_decode_wrong_signature sample_decode_four_frames)

text \<open>
  Claim C1 as stated says that the listener is never called when the decode aborts.
  It is: on frames without a delimiter, and on frames with a wrong signature, the decode
  returns early after its diagnostic and the listener is called with the message.
\<close>

theorem on_message_aborted_decode_invokes_listener:
  "snd (snd (decode sample_platform new_Message [''x''] None None)) = Aborted NotEnoughFrames
   \<and> emit sample_platform (Socket_on (Socket ''router'' None None) ''message'' 0)
        ''message'' [''x'']
     = ([Invoke 0 (OfMessage (new_Message\<lparr>idents := [''x'']\<rparr>))], None)
   \<and> snd (snd (decode sample_platform new_Message
        [''a'', DELIMITER, ''bad'', ''{\"msg_id\":\"a\"}'', ''{}'', ''{}'', ''{}''] None (Some ''k'')))
     = Aborted (IncorrectSignature ''bad'' ''sha256:k:{\"msg_id\":\"a\"}{}{}{}'')
   \<and> emit sample_platform (Socket_on (Socket ''router'' None (Some ''k'')) ''message'' 0)
        ''message'' [''a'', DELIMITER, ''bad'', ''{\"msg_id\":\"a\"}'', ''{}'', ''{}'', ''{}'']
     = ([Invoke 0 (OfMessage (new_Message\<lparr>idents := [''a''], signatureOK := Some False\<rparr>))],
        None)"
  by (simp add: sample_decode_no_delimiter sample_decode_wrong_signature emit_def
      Socket_on_message Socket_def wrapped_body_def)

section \<open>Removing all listeners\<close>

text \<open>
  Claim C5 asks that \<open>removeAllListeners\<close>, called with \<open>"message"\<close> or without an
  argument, empties the table of listeners and leaves no wrapper registered on the
  transport. Line 399 applies the transport's \<open>removeListener\<close>, not its
  \<open>removeAllListeners\<close>, to the arguments, which hold no listener: the table is
  emptied, the transport throws a TypeError and removes nothing, and a later delivery
  still calls the listener.
\<close>

theorem removeAllListeners_keeps_wrapped_listener:
  "Socket_removeAllListeners (Socket_on (Socket ''router'' None None) ''message'' 0)
       (Some ''message'')
     = (\<lparr>jmp_scheme = None, jmp_key = None, jmp_listeners = [], socket_type = ''router'',
         registered = [(''message'', Wrapped 0 0)], sent = [], closures = 1\<rparr>,
        Some TypeError)
   \<and> Socket_removeAllListeners (Socket_on (Socket ''router'' None None) ''message'' 0) None
     = (\<lparr>jmp_scheme = None, jmp_key = None, jmp_listeners = [], socket_type = ''router'',
         registered = [(''message'', Wrapped 0 0)], sent = [], closures = 1\<rparr>,
        Some TypeError)
   \<and> emit sample_platform
        \<lparr>jmp_scheme = None, jmp_key = None, jmp_listeners = [], socket_type = ''router'',
         registered = [(''message'', Wrapped 0 0)], sent = [], closures = 1\<rparr>
        ''message'' [''x'']
     = ([Invoke 0 (OfMessage (new_Message\<lparr>idents := [''x'']\<rparr>))], None)"
  by (simp add: sample_decode_no_delimiter Socket_removeAllListeners_def p_removeListener_def
      Socket_on_message Socket_def emit_def wrapped_body_def)

end
